theory Spec2Isabelle
  imports Main "HOL-Library.AList" "HOL-Library.List_Lexorder" "HOL-Library.Char_ord"
begin

section \<open>JavaScript values\<close>

text \<open>
  The translation payloads, the argument mappings and the consumer's records are plain
  JSON-like objects. A value is \<open>undefined\<close>, \<open>null\<close>, a string, an object or one of
  the built-in functions that every object inherits, given by its name. An object is the
  association list of its own properties in property order, and its prototype is
  \<open>Object.prototype\<close>. Numbers, booleans, arrays, objects with another prototype and an
  own property named \<open>__proto__\<close> (which only \<open>JSON.parse\<close> or \<open>defineProperty\<close> can
  create) are outside the model. A \<open>char\<close> stands for one UTF-16 code unit below 256.
\<close>

datatype jsval =
    JUndefined
  | JNull
  | JStr string
  | JObj "(string \<times> jsval) list"
  | JFunction string

type_synonym obj = "(string \<times> jsval) list"

text \<open>
  \<open>Object.prototype\<close> itself: its properties are built-in functions, and reading its
  \<open>__proto__\<close> gives \<open>null\<close>.
\<close>

definition object_prototype :: obj where
  "object_prototype =
     [(''constructor'', JFunction ''Object''),
      (''__defineGetter__'', JFunction ''__defineGetter__''),
      (''__defineSetter__'', JFunction ''__defineSetter__''),
      (''hasOwnProperty'', JFunction ''hasOwnProperty''),
      (''__lookupGetter__'', JFunction ''__lookupGetter__''),
      (''__lookupSetter__'', JFunction ''__lookupSetter__''),
      (''isPrototypeOf'', JFunction ''isPrototypeOf''),
      (''propertyIsEnumerable'', JFunction ''propertyIsEnumerable''),
      (''toString'', JFunction ''toString''),
      (''valueOf'', JFunction ''valueOf''),
      (''toLocaleString'', JFunction ''toLocaleString''),
      (''__proto__'', JNull)]"

text \<open>
  \<open>ob[k]\<close>: an own property first, then the prototype chain. On a plain object
  \<open>__proto__\<close> reads as \<open>Object.prototype\<close> and the other names of \<open>Object.prototype\<close>
  as its functions; a name found nowhere gives \<open>undefined\<close>.
\<close>

definition get_prop :: "obj \<Rightarrow> string \<Rightarrow> jsval" where
  "get_prop ob k =
     (case map_of ob k of
        Some v \<Rightarrow> v
      | None \<Rightarrow>
          if k = ''__proto__'' then JObj object_prototype
          else (case map_of object_prototype k of Some v \<Rightarrow> v | None \<Rightarrow> JUndefined))"

text \<open>\<open>ob[k] = v\<close>: an existing property keeps its place, a new one is appended.\<close>

definition set_prop :: "obj \<Rightarrow> string \<Rightarrow> jsval \<Rightarrow> obj" where
  "set_prop ob k v = AList.update k v ob"

text \<open>
  \<open>String(v)\<close>, as applied to a property key, a collation operand or a replacement. The
  text of a built-in function is the one V8 gives.
\<close>

fun js_to_string :: "jsval \<Rightarrow> string" where
  "js_to_string JUndefined = ''undefined''"
| "js_to_string JNull = ''null''"
| "js_to_string (JStr s) = s"
| "js_to_string (JObj ob) = ''[object Object]''"
| "js_to_string (JFunction name) = ''function '' @ name @ ''() { [native code] }''"

text \<open>\<open>v == null\<close> holds of \<open>null\<close> and \<open>undefined\<close> only.\<close>

fun eq_null :: "jsval \<Rightarrow> bool" where
  "eq_null JUndefined = True"
| "eq_null JNull = True"
| "eq_null v = False"

text \<open>\<open>v == ""\<close>: an object converts to \<open>"[object Object]"\<close> and a function to its
  text, \<open>null\<close> and \<open>undefined\<close> are loosely equal to each other only.\<close>

fun eq_empty_string :: "jsval \<Rightarrow> bool" where
  "eq_empty_string (JStr s) = (s = [])"
| "eq_empty_string v = False"

text \<open>The truthiness test \<open>if (str)\<close> on an optional string: \<open>undefined\<close> and \<open>""\<close> are falsy.\<close>

fun truthy :: "string option \<Rightarrow> string option" where
  "truthy None = None"
| "truthy (Some s) = (if s = [] then None else Some s)"

subsection \<open>\<open>String.prototype.split\<close> with a string separator\<close>

fun split_go :: "string \<Rightarrow> string \<Rightarrow> string \<Rightarrow> string list" where
  "split_go sep acc [] = [rev acc]"
| "split_go sep acc (c # cs) =
     (if sep \<noteq> [] \<and> take (length sep) (c # cs) = sep
      then rev acc # split_go sep [] (drop (length sep - 1) cs)
      else split_go sep (c # acc) cs)"

text \<open>
  \<open>key.split(sep)\<close>: an \<open>undefined\<close> separator gives the whole string as the only piece,
  the empty separator gives the code units one by one (and no piece at all for the empty
  string), any other separator cuts at its successive occurrences from the left.
\<close>

definition js_split :: "string \<Rightarrow> string option \<Rightarrow> string list" where
  "js_split key sep =
     (case sep of
        None \<Rightarrow> [key]
      | Some sp \<Rightarrow> if sp = [] then map (\<lambda>c. [c]) key else split_go sp [] key)"

section \<open>The service\<close>

datatype ServiceState = isReady | isLoading | isWaiting

datatype LoadingMode = Direct | Async

record Provider =
  prefix :: string
  dataFormat :: string
  webAPI :: bool

datatype error = TypeError | RangeError

text \<open>
  The fields of \<open>LocalizationService\<close>. \<open>counter\<close> is unassigned (\<open>None\<close>) until
  \<open>getTranslation\<close> sets it. The last three fields record what the service sends out:
  the values emitted on \<open>translationChanged\<close>, the errors written with \<open>console.error\<close>,
  and the URLs requested with \<open>http.get\<close>, each with the language of its callbacks.
\<close>

record LocalizationService =
  languageCode :: string
  loadingMode :: LoadingMode
  serviceState :: ServiceState
  enableLocale :: bool
  providers :: "Provider list"
  translationData :: "(string \<times> obj) list"
  missingValue :: "string option"
  missingKey :: "string option"
  composedKey :: bool
  keySeparator :: "string option"
  counter :: "int option"
  translationChanged :: "string list"
  console_error :: "string list"
  http_get :: "(string \<times> string) list"

text \<open>The field initialisers and the constructor.\<close>

definition constructor :: LocalizationService where
  "constructor =
     \<lparr> languageCode = '''', loadingMode = Direct, serviceState = isWaiting,
       enableLocale = False, providers = [], translationData = [],
       missingValue = None, missingKey = None, composedKey = True,
       keySeparator = Some ''.'', counter = None,
       translationChanged = [], console_error = [], http_get = [] \<rparr>"

text \<open>
  What the service reads from its collaborators: the locale service's current language
  and country, the capability check \<open>IntlSupport.Collator\<close>, and the comparison function
  of \<open>new Intl.Collator(locale, options)\<close>. Their code is not part of the sources, so
  they are parameters.
\<close>

record Env =
  getCurrentLanguage :: string
  getCurrentCountry :: string
  IntlSupport_Collator :: "string \<Rightarrow> bool"
  Intl_Collator :: "string \<Rightarrow> obj option \<Rightarrow> string \<Rightarrow> string \<Rightarrow> int"

section \<open>translate\<close>

subsection \<open>The composed-key descent\<close>

text \<open>
  One pass of the loop body with \<open>key\<close> already shifted: the held mapping is replaced by
  \<open>translation[key]\<close> when that is a non-null object, and kept otherwise.
\<close>

definition descend_step :: "obj \<Rightarrow> string \<Rightarrow> obj" where
  "descend_step translation key =
     (case get_prop translation key of JObj inner \<Rightarrow> inner | _ \<Rightarrow> translation)"

text \<open>
  The \<open>do ... while (keys.length > 0)\<close> loop. It returns the mapping held at the end and
  the last value of \<open>key\<close>. The body runs once even on an empty array, where \<open>shift\<close>
  gives \<open>undefined\<close>.
\<close>

fun descend :: "obj \<Rightarrow> string list \<Rightarrow> obj \<times> jsval" where
  "descend translation [] = (descend_step translation ''undefined'', JUndefined)"
| "descend translation [k] = (descend_step translation k, JStr k)"
| "descend translation (k # ks) = descend (descend_step translation k) ks"

text \<open>
  Lines 626 to 645 of \<open>translate\<close>: the value found and the final content of the variable
  \<open>key\<close>. With composed keys on, \<open>key.split\<close> raises a TypeError for a key that is not a
  string.
\<close>

definition lookup_value ::
  "LocalizationService \<Rightarrow> jsval \<Rightarrow> string \<Rightarrow> error + (jsval \<times> jsval)" where
  "lookup_value s key lang =
     (case map_of (translationData s) lang of
        None \<Rightarrow> Inr (JUndefined, key)
      | Some translation \<Rightarrow>
          if composedKey s then
            (case key of
               JStr k \<Rightarrow>
                 (case descend translation (js_split k (keySeparator s)) of
                    (translation', key') \<Rightarrow>
                      Inr (get_prop translation' (js_to_string key'), key'))
             | _ \<Rightarrow> Inl TypeError)
          else Inr (get_prop translation (js_to_string key), key))"

subsection \<open>Placeholders\<close>

text \<open>\<open>\s\<close> on code units below 256: tab, LF, VT, FF, CR, space and the no-break space.\<close>

definition is_space :: "char \<Rightarrow> bool" where
  "is_space c = (of_char c \<in> {9, 10, 11, 12, 13, 32, 160 :: nat})"

text \<open>The class \<open>[^{}\s]\<close>.\<close>

definition is_name_char :: "char \<Rightarrow> bool" where
  "is_name_char c = (c \<noteq> CHR ''{'' \<and> c \<noteq> CHR ''}'' \<and> \<not> is_space c)"

text \<open>\<open>\s?\<close>, greedy: the white space taken and the rest.\<close>

fun opt_space :: "string \<Rightarrow> string \<times> string" where
  "opt_space [] = ([], [])"
| "opt_space (c # cs) = (if is_space c then ([c], cs) else ([], c # cs))"

text \<open>
  One attempt of \<open>/{{\s?([^{}\s]*)\s?}}/\<close> at the head of the string: the matched text,
  the captured name and the text after the match. The greedy choices are the only ones
  that matter: a shorter name is followed by a name character, where neither \<open>\s?\<close> nor
  \<open>}}\<close> fits, and giving up a white space of either \<open>\s?\<close> leaves it in front of \<open>}}\<close>
  or hands it to the other \<open>\s?\<close> with the same match and the same capture.
\<close>

definition match_template :: "string \<Rightarrow> (string \<times> string \<times> string) option" where
  "match_template xs =
     (case xs of
        c1 # c2 # r0 \<Rightarrow>
          if c1 = CHR ''{'' \<and> c2 = CHR ''{'' then
            (case opt_space r0 of
               (w1, r1) \<Rightarrow>
                 (case opt_space (dropWhile is_name_char r1) of
                    (w2, r3) \<Rightarrow>
                      (case r3 of
                         d1 # d2 # rest \<Rightarrow>
                           if d1 = CHR ''}'' \<and> d2 = CHR ''}''
                           then Some (''{{'' @ w1 @ takeWhile is_name_char r1 @ w2 @ ''}}'',
                                      takeWhile is_name_char r1, rest)
                           else None
                       | _ \<Rightarrow> None)))
          else None
      | _ \<Rightarrow> None)"

text \<open>
  \<open>value.replace(TEMPLATE_REGEXP, callback)\<close> with the global flag: the matches are
  found from the left, each search resuming after the previous match. The callback
  returns \<open>args[parsedKey]\<close>, converted to a string by \<open>replace\<close>, unless it is
  \<open>undefined\<close>, and then the matched text itself.
\<close>

function replace_template :: "obj \<Rightarrow> string \<Rightarrow> string" where
  "replace_template args [] = []"
| "replace_template args (c # cs) =
     (case match_template (c # cs) of
        Some (substring, parsedKey, rest) \<Rightarrow>
          (if get_prop args parsedKey \<noteq> JUndefined
           then js_to_string (get_prop args parsedKey)
           else substring) @ replace_template args rest
      | None \<Rightarrow> c # replace_template args cs)"
  by pat_completeness auto
termination
proof (relation "measure (\<lambda>(args, xs). length xs)", goal_cases)
  case 1
  show ?case by simp
next
  case (2 args c cs)
  show ?case by simp
next
  case (3 args c cs x2 substring y parsedKey rest)
  then have m: "match_template (c # cs) = Some (substring, parsedKey, rest)"
    by simp
  have space: "length r \<le> length zs" if "opt_space zs = (w, r)" for zs w r
    using that by (cases zs) (auto split: if_splits)
  from m obtain r0 where xs: "c # cs = CHR ''{'' # CHR ''{'' # r0"
    by (auto simp: match_template_def split: list.splits if_splits)
  obtain w1 r1 where o1: "opt_space r0 = (w1, r1)"
    by (cases "opt_space r0")
  obtain w2 r3 where o2: "opt_space (dropWhile is_name_char r1) = (w2, r3)"
    by (cases "opt_space (dropWhile is_name_char r1)")
  from m xs o1 o2 have r3: "r3 = CHR ''}'' # CHR ''}'' # rest"
    by (auto simp: match_template_def split: list.splits if_splits)
  have "length r3 \<le> length (dropWhile is_name_char r1)"
    using o2 by (rule space)
  also have "\<dots> \<le> length r1"
    by (rule length_dropWhile_le)
  also have "\<dots> \<le> length r0"
    using o1 by (rule space)
  finally have "length rest < length (c # cs)"
    unfolding xs using r3 by simp
  then show ?case by simp
qed

subsection \<open>translate\<close>

text \<open>
  \<open>translate(key, args, lang)\<close>. The first argument of the model is the call depth
  still available: \<open>translate\<close> calls itself on the missing key, and when that key
  misses too the recursion has no end, which the runtime stops with a RangeError.
  \<open>args\<close> and \<open>lang\<close> are optional; \<open>lang\<close> defaults to the service's language code.
\<close>

fun translate ::
  "nat \<Rightarrow> LocalizationService \<Rightarrow> jsval \<Rightarrow> obj option \<Rightarrow> string option \<Rightarrow> error + jsval" where
  "translate 0 s key args lang = Inl RangeError"
| "translate (Suc depth) s key args lang =
     (case lookup_value s key (case lang of None \<Rightarrow> languageCode s | Some l \<Rightarrow> l) of
        Inl e \<Rightarrow> Inl e
      | Inr (val, key') \<Rightarrow>
          if eq_null val \<or> eq_empty_string val then
            (case truthy (missingKey s) of
               Some mk \<Rightarrow>
                 translate depth s (JStr mk) args
                   (Some (case lang of None \<Rightarrow> languageCode s | Some l \<Rightarrow> l))
             | None \<Rightarrow>
                 (case truthy (missingValue s) of
                    Some mv \<Rightarrow> Inr (JStr mv)
                  | None \<Rightarrow> Inr key'))
          else
            (case args of
               Some a \<Rightarrow>
                 (case val of
                    JStr v \<Rightarrow> Inr (JStr (replace_template a v))
                  | _ \<Rightarrow> Inl TypeError)
             | None \<Rightarrow> Inr val))"

section \<open>Collation: compare, sort, search\<close>

definition addExtension :: "string \<Rightarrow> string option \<Rightarrow> string" where
  "addExtension locale extension =
     (case extension of
        None \<Rightarrow> locale
      | Some ext \<Rightarrow> if ext \<noteq> [] then locale @ ''-'' @ ext else locale)"

text \<open>
  \<open>compare(key1, key2, extension, options)\<close>. The collator is built from the locale alone.
\<close>

definition compare ::
  "nat \<Rightarrow> Env \<Rightarrow> LocalizationService \<Rightarrow> string \<Rightarrow> string \<Rightarrow> string option \<Rightarrow> obj option
     \<Rightarrow> error + int" where
  "compare depth env s key1 key2 extension options =
     (if \<not> IntlSupport_Collator env (getCurrentLanguage env) then Inr 0
      else
        (case translate depth s (JStr key1) None None of
           Inl e \<Rightarrow> Inl e
         | Inr value1 \<Rightarrow>
             (case translate depth s (JStr key2) None None of
                Inl e \<Rightarrow> Inl e
              | Inr value2 \<Rightarrow>
                  Inr (Intl_Collator env (addExtension (getCurrentLanguage env) extension) None
                         (js_to_string value1) (js_to_string value2)))))"

subsection \<open>The matching algorithm\<close>

text \<open>\<open>v.substr(i, n)\<close> for \<open>i\<close> within the string.\<close>

definition substr :: "string \<Rightarrow> nat \<Rightarrow> nat \<Rightarrow> string" where
  "substr v i n = take n (drop i v)"

text \<open>
  The \<open>for\<close> loop of \<open>match\<close> from index \<open>i\<close> on, with its bound
  \<open>vLength - (sLength - 1)\<close> computed on integers; the result is the final \<open>found\<close>.
\<close>

function match_loop :: "(string \<Rightarrow> string \<Rightarrow> int) \<Rightarrow> string \<Rightarrow> string \<Rightarrow> nat \<Rightarrow> bool" where
  "match_loop collator v s i =
     (if int i < int (length v) - (int (length s) - 1) then
        (if collator (substr v i (length s)) s = 0 then True
         else match_loop collator v s (i + 1))
      else False)"
  by pat_completeness auto
termination
  by (relation "measure (\<lambda>(collator, v, s, i). nat (int (length v) - (int (length s) - 1) - int i))")
     auto

text \<open>
  \<open>match(v, s, collator)\<close>. The declared type of \<open>v\<close> is \<open>string\<close>, but \<open>search\<close> passes
  whatever \<open>translate\<close> returned. Reading \<open>length\<close> of \<open>undefined\<close> or \<open>null\<close> raises a
  TypeError. An object without a \<open>length\<close> property has an \<open>undefined\<close> length, every
  test on it is false and so is the result; an object with a \<open>length\<close> property would
  have it converted to a number, and the \<open>length\<close> of a function is a number, which
  the model of values does not cover.
\<close>

datatype 'a outcome = Returns 'a | Throws error | Unmodelled

definition match :: "jsval \<Rightarrow> string \<Rightarrow> (string \<Rightarrow> string \<Rightarrow> int) \<Rightarrow> bool outcome" where
  "match v s collator =
     (case v of
        JStr vs \<Rightarrow>
          if length s > length vs then Returns False
          else if length s = length vs then Returns (collator vs s = 0)
          else Returns (match_loop collator vs s 0)
      | JObj ob \<Rightarrow> if get_prop ob ''length'' = JUndefined then Returns False else Unmodelled
      | JFunction name \<Rightarrow> Unmodelled
      | _ \<Rightarrow> Throws TypeError)"

subsection \<open>The shadow columns\<close>

text \<open>
  The loop \<open>for (let item of list)\<close> of \<open>sort\<close> and \<open>search\<close>: each record gets the
  translation of its field \<open>keyName\<close> under the name \<open>keyName.concat("Translated")\<close>.
  The records of a list are taken to be distinct objects.
\<close>

fun translate_column ::
  "nat \<Rightarrow> LocalizationService \<Rightarrow> string \<Rightarrow> obj list \<Rightarrow> error + obj list" where
  "translate_column depth s keyName [] = Inr []"
| "translate_column depth s keyName (item # items) =
     (case translate depth s (get_prop item keyName) None None of
        Inl e \<Rightarrow> Inl e
      | Inr val \<Rightarrow>
          (case translate_column depth s keyName items of
             Inl e \<Rightarrow> Inl e
           | Inr items' \<Rightarrow> Inr (set_prop item (keyName @ ''Translated'') val # items')))"

text \<open>The loop over \<open>keyNames\<close> of \<open>search\<close>.\<close>

fun translate_columns ::
  "nat \<Rightarrow> LocalizationService \<Rightarrow> string list \<Rightarrow> obj list \<Rightarrow> error + obj list" where
  "translate_columns depth s [] items = Inr items"
| "translate_columns depth s (keyName # keyNames) items =
     (case translate_column depth s keyName items of
        Inl e \<Rightarrow> Inl e
      | Inr items' \<Rightarrow> translate_columns depth s keyNames items')"

text \<open>
  \<open>list.indexOf(translated, 0)\<close> compares each element of the list with the column name
  by strict equality. The elements are records, the name is a string: a record is never
  strictly equal to a string.
\<close>

definition strict_equals :: "obj \<Rightarrow> string \<Rightarrow> bool" where
  "strict_equals item str = False"

fun indexOf :: "obj list \<Rightarrow> string \<Rightarrow> int" where
  "indexOf [] str = - 1"
| "indexOf (item # items) str =
     (if strict_equals item str then 0
      else if indexOf items str > - 1 then indexOf items str + 1 else - 1)"

text \<open>\<open>list.splice(index, 1)\<close> for \<open>index > -1\<close>.\<close>

definition splice :: "obj list \<Rightarrow> int \<Rightarrow> obj list" where
  "splice items index = take (nat index) items @ drop (nat index + 1) items"

subsection \<open>sort\<close>

text \<open>
  \<open>Array.prototype.sort\<close> with a comparison function, as a stable insertion sort. No
  property below depends on the order it produces.
\<close>

fun insert_by :: "('a \<Rightarrow> 'a \<Rightarrow> int) \<Rightarrow> 'a \<Rightarrow> 'a list \<Rightarrow> 'a list" where
  "insert_by cmp x [] = [x]"
| "insert_by cmp x (y # ys) = (if cmp x y \<le> 0 then x # y # ys else y # insert_by cmp x ys)"

definition array_sort :: "('a \<Rightarrow> 'a \<Rightarrow> int) \<Rightarrow> 'a list \<Rightarrow> 'a list" where
  "array_sort cmp xs = foldr (insert_by cmp) xs []"

text \<open>
  \<open>sort(list, keyName, order, extension, options)\<close>. The array is sorted in place and
  returned: the result is the input list after the call as well.
\<close>

definition sort_list ::
  "nat \<Rightarrow> Env \<Rightarrow> LocalizationService \<Rightarrow> obj list option \<Rightarrow> string option \<Rightarrow> string option
     \<Rightarrow> string option \<Rightarrow> obj option \<Rightarrow> error + obj list option" where
  "sort_list depth env s list keyName order extension options =
     (case list of
        None \<Rightarrow> Inr list
      | Some items \<Rightarrow>
          (case keyName of
             None \<Rightarrow> Inr list
           | Some kn \<Rightarrow>
               if \<not> IntlSupport_Collator env (getCurrentLanguage env) then Inr list
               else
                 (case translate_column depth s kn items of
                    Inl e \<Rightarrow> Inl e
                  | Inr items1 \<Rightarrow>
                      (let translated = kn @ ''Translated'';
                           locale = addExtension (getCurrentLanguage env) extension;
                           collator = Intl_Collator env locale options;
                           items2 = array_sort
                             (\<lambda>a b. collator (js_to_string (get_prop a translated))
                                             (js_to_string (get_prop b translated))) items1;
                           index = indexOf items2 translated;
                           items3 = (if index > - 1 then splice items2 index else items2)
                       in Inr (Some (if order = Some ''desc'' then rev items3 else items3))))))"

subsection \<open>search\<close>

text \<open>The loop over \<open>translated\<close> inside the callback of \<open>list.filter\<close>.\<close>

fun found :: "(string \<Rightarrow> string \<Rightarrow> int) \<Rightarrow> obj \<Rightarrow> string \<Rightarrow> string list \<Rightarrow> bool outcome" where
  "found collator v s [] = Returns False"
| "found collator v s (column # columns) =
     (case match (get_prop v column) s collator of
        Returns True \<Rightarrow> Returns True
      | Returns False \<Rightarrow> found collator v s columns
      | Throws e \<Rightarrow> Throws e
      | Unmodelled \<Rightarrow> Unmodelled)"

text \<open>\<open>list.filter\<close> with that callback.\<close>

fun filter_found ::
  "(string \<Rightarrow> string \<Rightarrow> int) \<Rightarrow> string \<Rightarrow> string list \<Rightarrow> obj list \<Rightarrow> obj list outcome" where
  "filter_found collator s columns [] = Returns []"
| "filter_found collator s columns (v # vs) =
     (case found collator v s columns of
        Throws e \<Rightarrow> Throws e
      | Unmodelled \<Rightarrow> Unmodelled
      | Returns b \<Rightarrow>
          (case filter_found collator s columns vs of
             Returns ms \<Rightarrow> Returns (if b then v # ms else ms)
           | Throws e \<Rightarrow> Throws e
           | Unmodelled \<Rightarrow> Unmodelled))"

text \<open>The last loop of \<open>search\<close>, over the column names.\<close>

fun remove_columns :: "obj list \<Rightarrow> string list \<Rightarrow> obj list" where
  "remove_columns matches [] = matches"
| "remove_columns matches (column # columns) =
     remove_columns
       (if indexOf matches column > - 1 then splice matches (indexOf matches column)
        else matches)
       columns"

text \<open>
  \<open>search(s, list, keyNames, options)\<close>. The result is a pair: the input list as the
  call leaves it, and the list returned. \<open>options\<close> defaults to \<open>{ usage: 'search' }\<close>.
\<close>

definition search ::
  "nat \<Rightarrow> Env \<Rightarrow> LocalizationService \<Rightarrow> string \<Rightarrow> obj list option \<Rightarrow> string list option
     \<Rightarrow> obj option \<Rightarrow> (obj list option \<times> obj list option) outcome" where
  "search depth env s str list keyNames options =
     (case list of
        None \<Rightarrow> Returns (list, list)
      | Some items \<Rightarrow>
          (case keyNames of
             None \<Rightarrow> Returns (list, list)
           | Some kns \<Rightarrow>
               if str = [] \<or> \<not> IntlSupport_Collator env (getCurrentLanguage env)
               then Returns (list, list)
               else
                 (case translate_columns depth s kns items of
                    Inl e \<Rightarrow> Throws e
                  | Inr items1 \<Rightarrow>
                      (let translated = map (\<lambda>kn. kn @ ''Translated'') kns;
                           collator = Intl_Collator env (getCurrentLanguage env)
                             (Some (case options of
                                      None \<Rightarrow> [(''usage'', JStr ''search'')]
                                    | Some opts \<Rightarrow> opts))
                       in (case filter_found collator str translated items1 of
                             Throws e \<Rightarrow> Throws e
                           | Unmodelled \<Rightarrow> Unmodelled
                           | Returns matches \<Rightarrow>
                               Returns (Some items1,
                                        Some (remove_columns matches translated)))))))"

section \<open>Translation data and loading\<close>

text \<open>
  \<open>extend(...args)\<close>: every enumerable key of every argument, in order, is copied into a
  fresh object.
\<close>

definition copy_fields :: "obj \<Rightarrow> obj \<Rightarrow> obj" where
  "copy_fields newObj ob = foldl (\<lambda>acc key. set_prop acc key (get_prop ob key)) newObj (map fst ob)"

definition extend_obj :: "obj list \<Rightarrow> obj" where
  "extend_obj args = foldl copy_fields [] args"

definition addData :: "obj \<Rightarrow> string \<Rightarrow> LocalizationService \<Rightarrow> LocalizationService" where
  "addData data language s =
     s\<lparr>translationData :=
         AList.update language
           (case map_of (translationData s) language of
              Some existing \<Rightarrow> extend_obj [existing, data]
            | None \<Rightarrow> data)
           (translationData s)\<rparr>"

definition addTranslation :: "string \<Rightarrow> obj \<Rightarrow> LocalizationService \<Rightarrow> LocalizationService" where
  "addTranslation language translation s = addData translation language s"

text \<open>\<open>dataFormat\<close> defaults to \<open>"json"\<close> and \<open>webAPI\<close> to \<open>false\<close>.\<close>

definition addProvider ::
  "string \<Rightarrow> string option \<Rightarrow> bool option \<Rightarrow> LocalizationService \<Rightarrow> LocalizationService" where
  "addProvider pre fmt api s =
     (let s1 = s\<lparr>providers := providers s @
                   [\<lparr>prefix = pre,
                     dataFormat = (case fmt of None \<Rightarrow> ''json'' | Some f \<Rightarrow> f),
                     webAPI = (case api of None \<Rightarrow> False | Some b \<Rightarrow> b)\<rparr>]\<rparr>
      in if length (providers s1) = 1 then s1\<lparr>loadingMode := Async\<rparr> else s1)"

definition translationProvider ::
  "string \<Rightarrow> string option \<Rightarrow> bool option \<Rightarrow> LocalizationService \<Rightarrow> LocalizationService" where
  "translationProvider pre fmt api s =
     addProvider pre (Some (case fmt of None \<Rightarrow> ''json'' | Some f \<Rightarrow> f))
       (Some (case api of None \<Rightarrow> False | Some b \<Rightarrow> b)) s"

definition useLocaleAsLanguage :: "LocalizationService \<Rightarrow> LocalizationService" where
  "useLocaleAsLanguage s = s\<lparr>enableLocale := True\<rparr>"

definition setMissingValue :: "string \<Rightarrow> LocalizationService \<Rightarrow> LocalizationService" where
  "setMissingValue v s = s\<lparr>missingValue := Some v\<rparr>"

definition setMissingKey :: "string \<Rightarrow> LocalizationService \<Rightarrow> LocalizationService" where
  "setMissingKey k s = s\<lparr>missingKey := Some k\<rparr>"

text \<open>
  Both parameters are optional and stored as they come; an \<open>undefined\<close> \<open>composedKey\<close>
  is falsy wherever it is read.
\<close>

definition setComposedKey ::
  "bool option \<Rightarrow> string option \<Rightarrow> LocalizationService \<Rightarrow> LocalizationService" where
  "setComposedKey ck sep s =
     s\<lparr>composedKey := (case ck of None \<Rightarrow> False | Some b \<Rightarrow> b), keySeparator := sep\<rparr>"

definition translationComplete :: "string \<Rightarrow> LocalizationService \<Rightarrow> LocalizationService" where
  "translationComplete language s =
     s\<lparr>serviceState := isReady, languageCode := language,
       translationChanged := translationChanged s @ [language]\<rparr>"

text \<open>The URL built for one provider.\<close>

definition url_of :: "Provider \<Rightarrow> string \<Rightarrow> string" where
  "url_of provider language =
     (if webAPI provider then prefix provider @ language
      else prefix provider @ language @ ''.'' @ dataFormat provider)"

text \<open>
  \<open>getTranslation(language)\<close> up to its return: the table is emptied, the state is
  loading, the counter is the number of providers and one request per provider is out.
  The three callbacks of each subscription run later.
\<close>

definition getTranslation :: "string \<Rightarrow> LocalizationService \<Rightarrow> LocalizationService" where
  "getTranslation language s =
     s\<lparr>translationData := [], serviceState := isLoading,
       counter := Some (int (length (providers s))),
       http_get := http_get s @ map (\<lambda>provider. (url_of provider language, language)) (providers s)\<rparr>"

text \<open>The callbacks given to \<open>subscribe\<close>, for a request made for \<open>language\<close>.\<close>

definition on_next :: "string \<Rightarrow> obj \<Rightarrow> LocalizationService \<Rightarrow> LocalizationService" where
  "on_next language res s = addData res language s"

definition on_error :: "string \<Rightarrow> LocalizationService \<Rightarrow> LocalizationService" where
  "on_error err s = s\<lparr>console_error := console_error s @ [err]\<rparr>"

text \<open>\<open>this.counter--\<close> on an unassigned counter gives NaN, which is not \<open>\<le> 0\<close>.\<close>

definition on_complete :: "string \<Rightarrow> LocalizationService \<Rightarrow> LocalizationService" where
  "on_complete language s =
     (case counter s of
        None \<Rightarrow> s
      | Some c \<Rightarrow>
          if c - 1 \<le> 0 then translationComplete language (s\<lparr>counter := Some (c - 1)\<rparr>)
          else s\<lparr>counter := Some (c - 1)\<rparr>)"

text \<open>
  What one request does when it is answered. An observable calls its error callback or
  its complete callback, never both: a successful \<open>http.get\<close> delivers the parsed
  response to the next callback and then completes, a failed one calls the error
  callback only.
\<close>

datatype response = Success obj | Failure string

fun respond :: "string \<Rightarrow> response \<Rightarrow> LocalizationService \<Rightarrow> LocalizationService" where
  "respond language (Success res) s = on_complete language (on_next language res s)"
| "respond language (Failure err) s = on_error err s"

text \<open>The answers to the requests of one language, in the order they arrive.\<close>

definition respond_all :: "string \<Rightarrow> response list \<Rightarrow> LocalizationService \<Rightarrow> LocalizationService" where
  "respond_all language rs s = foldl (\<lambda>acc r. respond language r acc) s rs"

text \<open>
  \<open>updateTranslation(language)\<close>; the default of \<open>language\<close> comes from the locale
  service.
\<close>

definition updateTranslation ::
  "Env \<Rightarrow> string option \<Rightarrow> LocalizationService \<Rightarrow> LocalizationService" where
  "updateTranslation env lang s =
     (let language =
        (case lang of
           Some l \<Rightarrow> l
         | None \<Rightarrow>
             if \<not> enableLocale s then getCurrentLanguage env
             else getCurrentLanguage env @ ''-'' @ getCurrentCountry env)
      in if language \<noteq> [] \<and> language \<noteq> languageCode s then
           (if loadingMode s = Async then getTranslation language s
            else translationComplete language s)
         else s)"

subsection \<open>The operations of the service\<close>

text \<open>
  Everything that can act on a service: its public methods, the locale service's
  \<open>updateLocalization\<close> event the constructor subscribed to, and the answer to a pending
  request. \<open>translate\<close>, \<open>compare\<close>, \<open>sort\<close> and \<open>search\<close>, with their \<open>Async\<close> variants,
  read the service and assign none of its fields.
\<close>

datatype operation =
    AddTranslation string obj
  | TranslationProvider string "string option" "bool option"
  | AddProvider string "string option" "bool option"
  | UseLocaleAsLanguage
  | UpdateTranslation Env "string option"
  | UpdateLocalization Env
  | SetMissingValue string
  | SetMissingKey string
  | SetComposedKey "bool option" "string option"
  | Response string response
  | Translate jsval "obj option" "string option"
  | Compare Env string string
  | Sort Env "obj list option" "string option"
  | Search Env string "obj list option" "string list option"

fun step :: "LocalizationService \<Rightarrow> operation \<Rightarrow> LocalizationService" where
  "step s (AddTranslation language translation) = addTranslation language translation s"
| "step s (TranslationProvider pre fmt api) = translationProvider pre fmt api s"
| "step s (AddProvider pre fmt api) = addProvider pre fmt api s"
| "step s UseLocaleAsLanguage = useLocaleAsLanguage s"
| "step s (UpdateTranslation env lang) = updateTranslation env lang s"
| "step s (UpdateLocalization env) = updateTranslation env None s"
| "step s (SetMissingValue v) = setMissingValue v s"
| "step s (SetMissingKey k) = setMissingKey k s"
| "step s (SetComposedKey ck sep) = setComposedKey ck sep s"
| "step s (Response language r) = respond language r s"
| "step s (Translate key args lang) = s"
| "step s (Compare env key1 key2) = s"
| "step s (Sort env list keyName) = s"
| "step s (Search env str list keyNames) = s"

definition run :: "operation list \<Rightarrow> LocalizationService" where
  "run ops = foldl step constructor ops"

subsection \<open>Notions used by the properties\<close>


text \<open>The loading mode is asynchronous exactly when a provider is registered.\<close>

definition mode_matches_providers :: "LocalizationService \<Rightarrow> bool" where
  "mode_matches_providers s = (loadingMode s = Async \<longleftrightarrow> providers s \<noteq> [])"




text \<open>A runtime with collation for every locale, comparing code unit by code unit.\<close>

definition env_en :: Env where
  "env_en =
     \<lparr> getCurrentLanguage = ''en'', getCurrentCountry = ''US'',
       IntlSupport_Collator = (\<lambda>locale. True),
       Intl_Collator = (\<lambda>locale options a b. if a = b then 0 else if a < b then - 1 else 1) \<rparr>"

text \<open>
  The answers to the requests of a load: which of them succeeded, how many, and the
  errors of the others in arrival order.
\<close>

fun is_success :: "response \<Rightarrow> bool" where
  "is_success (Success res) = True"
| "is_success (Failure err) = False"

fun failures :: "response list \<Rightarrow> string list" where
  "failures [] = []"
| "failures (Success res # rs) = failures rs"
| "failures (Failure err # rs) = err # failures rs"

definition successes :: "response list \<Rightarrow> nat" where
  "successes rs = length (filter is_success rs)"


text \<open>Services and runs used as concrete instances.\<close>

definition svc_one_provider :: LocalizationService where
  "svc_one_provider = translationProvider ''./resources/locale-'' None None constructor"

definition svc_two_providers :: LocalizationService where
  "svc_two_providers = addProvider ''http://localhost/api/'' None (Some True) svc_one_provider"

definition failed_load :: LocalizationService where
  "failed_load = respond ''it'' (Failure ''404'') (updateTranslation env_en (Some ''it'') svc_one_provider)"





definition svc_title :: LocalizationService where
  "svc_title = addTranslation ''en'' [(''title'', JStr ''Hello'')] constructor"

definition svc_fallback :: LocalizationService where
  "svc_fallback = setMissingKey ''missing'' svc_title"



definition env_unsupported :: Env where
  "env_unsupported = env_en\<lparr>IntlSupport_Collator := (\<lambda>locale. False)\<rparr>"

definition staff :: "obj list" where
  "staff = [[(''position'', JStr ''System Architect'')], [(''position'', JStr ''Accountant'')]]"

definition accountant :: "obj list" where
  "accountant = [[(''positionTranslated'', JStr ''Accountant'')]]"

section \<open>Properties\<close>

subsection \<open>Auxiliary facts\<close>

lemmas op_defs = addTranslation_def addData_def translationProvider_def addProvider_def
  useLocaleAsLanguage_def updateTranslation_def setMissingValue_def setMissingKey_def
  setComposedKey_def getTranslation_def translationComplete_def on_next_def on_error_def
  on_complete_def


lemma respond_providers: "providers (respond language r s) = providers s"
  by (cases r) (simp_all add: op_defs split: option.splits)

lemma respond_loadingMode: "loadingMode (respond language r s) = loadingMode s"
  by (cases r) (simp_all add: op_defs split: option.splits)

lemma step_providers: "\<exists>ps. providers (step s op) = providers s @ ps"
  by (cases op) (simp_all add: op_defs respond_providers Let_def)

lemma step_mode: "mode_matches_providers s \<Longrightarrow> mode_matches_providers (step s op)"
  by (cases op)
     (auto simp: mode_matches_providers_def op_defs respond_providers respond_loadingMode Let_def)

lemma step_Async: "loadingMode s = Async \<Longrightarrow> loadingMode (step s op) = Async"
  by (cases op) (auto simp: op_defs respond_loadingMode Let_def)

lemma run_snoc: "run (ops @ [op]) = step (run ops) op"
  by (simp add: run_def)

lemma run_mode: "mode_matches_providers (run ops)"
proof (induction ops rule: rev_induct)
  case Nil
  show ?case by (simp add: run_def mode_matches_providers_def constructor_def)
next
  case (snoc op ops)
  then show ?case by (simp add: run_snoc step_mode)
qed





declare match_loop.simps [simp del]

declare replace_template.simps [simp del]

lemma match_loop_iff:
  "match_loop collator v s i \<longleftrightarrow>
     (\<exists>j\<ge>i. int j < int (length v) - (int (length s) - 1) \<and> collator (substr v j (length s)) s = 0)"
proof (induction collator v s i rule: match_loop.induct)
  case (1 collator v s i)
  show ?case
  proof (cases "int i < int (length v) - (int (length s) - 1)")
    case False
    then show ?thesis
      by (subst match_loop.simps) auto
  next
    case in_range: True
    show ?thesis
    proof (cases "collator (substr v i (length s)) s = 0")
      case True
      with in_range show ?thesis
        by (subst match_loop.simps) auto
    next
      case False
      with in_range have "match_loop collator v s i = match_loop collator v s (i + 1)"
        by (subst match_loop.simps) simp
      also have "\<dots> \<longleftrightarrow> (\<exists>j\<ge>i + 1. int j < int (length v) - (int (length s) - 1)
                      \<and> collator (substr v j (length s)) s = 0)"
        using "1.IH" in_range False by simp
      also have "\<dots> \<longleftrightarrow> (\<exists>j\<ge>i. int j < int (length v) - (int (length s) - 1)
                      \<and> collator (substr v j (length s)) s = 0)"
        using False by (metis Suc_eq_plus1 Suc_leD Suc_leI le_neq_implies_less)
      finally show ?thesis .
    qed
  qed
qed

lemma match_string:
  "match (JStr v) s collator =
     Returns (if length v < length s then False
              else if length s = length v then collator v s = 0
              else (\<exists>i\<le>length v - length s. collator (substr v i (length s)) s = 0))"
proof -
  have "(\<exists>j\<ge>0. int j < int (length v) - (int (length s) - 1) \<and> collator (substr v j (length s)) s = 0)
        \<longleftrightarrow> (\<exists>i\<le>length v - length s. collator (substr v i (length s)) s = 0)"
    if "length s < length v"
  proof -
    have "int j < int (length v) - (int (length s) - 1) \<longleftrightarrow> j \<le> length v - length s" for j
      using that by auto
    then show ?thesis by simp
  qed
  then show ?thesis
    by (auto simp: match_def match_loop_iff)
qed

lemma found_longer:
  "\<forall>c\<in>set columns. \<exists>vs. get_prop v c = JStr vs \<and> length vs < length s \<Longrightarrow>
   found collator v s columns = Returns False"
  by (induction columns) (auto simp: match_string)

lemma filter_found_longer:
  "\<forall>v\<in>set items. \<forall>c\<in>set columns. \<exists>vs. get_prop v c = JStr vs \<and> length vs < length s \<Longrightarrow>
   filter_found collator s columns items = Returns []"
  by (induction items) (simp_all add: found_longer)

lemma not_name_brace [simp]: "\<not> is_name_char CHR ''{''" "\<not> is_name_char CHR ''}''"
  "\<not> is_space CHR ''{''" "\<not> is_space CHR ''}''"
  by (simp_all add: is_name_char_def is_space_def)













lemma failures_append: "failures (rs @ [r]) = failures rs @ (case r of Success res \<Rightarrow> [] | Failure err \<Rightarrow> [err])"
  by (induction rs rule: failures.induct) (simp_all split: response.splits)

lemma successes_le: "successes rs \<le> length rs"
  by (simp add: successes_def)

lemma respond_all_snoc: "respond_all language (rs @ [r]) s = respond language r (respond_all language rs s)"
  by (simp add: respond_all_def)

lemma load_progress:
  assumes "length rs \<le> length (providers s)" 
  shows "counter (respond_all X rs (getTranslation X s)) = Some (int (length (providers s)) - int (successes rs)) \<and>
         providers (respond_all X rs (getTranslation X s)) = providers s \<and>
         console_error (respond_all X rs (getTranslation X s)) = console_error s @ failures rs \<and>
         (successes rs < length (providers s) \<longrightarrow>
            serviceState (respond_all X rs (getTranslation X s)) = isLoading \<and>
            languageCode (respond_all X rs (getTranslation X s)) = languageCode s \<and>
            translationChanged (respond_all X rs (getTranslation X s)) = translationChanged s) \<and>
         (providers s \<noteq> [] \<and> successes rs = length (providers s) \<longrightarrow>
            serviceState (respond_all X rs (getTranslation X s)) = isReady \<and>
            languageCode (respond_all X rs (getTranslation X s)) = X \<and>
            translationChanged (respond_all X rs (getTranslation X s)) = translationChanged s @ [X])"
  using assms
proof (induction rs rule: rev_induct)
  case Nil
  show ?case
    by (simp add: respond_all_def getTranslation_def successes_def)
next
  case (snoc r rs)
  let ?s = "respond_all X rs (getTranslation X s)"
  from snoc.prems have len: "length rs < length (providers s)" by simp
  with successes_le [of rs] have k: "successes rs < length (providers s)" by simp
  from snoc.IH len k have IH:
    "counter ?s = Some (int (length (providers s)) - int (successes rs))"
    "providers ?s = providers s"
    "console_error ?s = console_error s @ failures rs"
    "serviceState ?s = isLoading"
    "languageCode ?s = languageCode s"
    "translationChanged ?s = translationChanged s"
    by simp_all
  show ?case
  proof (cases r)
    case (Failure err)
    with IH k show ?thesis
      by (simp add: respond_all_snoc on_error_def successes_def failures_append)
  next
    case (Success res)
    have s: "successes (rs @ [r]) = Suc (successes rs)"
      using Success by (simp add: successes_def)
    show ?thesis
      unfolding s using IH k Success
      by (auto simp: respond_all_snoc on_complete_def on_next_def addData_def
            translationComplete_def failures_append)
  qed
qed















lemma lookup_title:
  "lookup_value svc_title (JStr ''home.subtitle'') ''en'' = Inr (JUndefined, JStr ''subtitle'')"
  "lookup_value svc_title (JStr ''home.subtitle'') ''it'' = Inr (JUndefined, JStr ''home.subtitle'')"
  "truthy (missingKey svc_title) = None" "truthy (missingValue svc_title) = None"
  by code_simp+

lemma lookup_fallback:
  "lookup_value svc_fallback (JStr ''home.subtitle'') ''en'' = Inr (JUndefined, JStr ''subtitle'')"
  "lookup_value svc_fallback (JStr ''missing'') ''en'' = Inr (JUndefined, JStr ''missing'')"
  "truthy (missingKey svc_fallback) = Some ''missing''"
  by code_simp+



lemma fallback_missing_loops:
  "translate d svc_fallback (JStr ''missing'') None (Some ''en'') = Inl RangeError"
  by (induction d) (simp_all add: lookup_fallback)

lemma fallback_loops:
  "translate d svc_fallback (JStr ''home.subtitle'') None (Some ''en'') = Inl RangeError"
  by (cases d) (simp_all add: lookup_fallback fallback_missing_loops)

lemma indexOf_never: "indexOf items column = - 1"
  by (induction items) (simp_all add: strict_equals_def)

lemma remove_columns_nothing: "remove_columns matches columns = matches"
  by (induction columns) (simp_all add: indexOf_never)










subsection \<open>Merging translation data\<close>


subsection \<open>Loading mode and providers\<close>

text \<open>
  Claim C10. The service starts in direct mode with no provider. After any sequence of
  operations the loading mode is asynchronous if and only if at least one provider is
  registered; an operation only ever appends to the provider list, and never takes the
  mode back from asynchronous to direct. \<open>addProvider\<close> appends one provider, and
  switches the mode to asynchronous when it is the first.
\<close>

theorem loading_mode_async_iff_provider_registered:
  "loadingMode constructor = Direct \<and> providers constructor = [] \<and>
   mode_matches_providers (run ops) \<and>
   (\<exists>ps. providers (run (ops @ [op])) = providers (run ops) @ ps) \<and>
   (loadingMode (run ops) = Async \<longrightarrow> loadingMode (run (ops @ [op])) = Async) \<and>
   length (providers (addProvider pre fmt api s)) = Suc (length (providers s)) \<and>
   (providers s = [] \<longrightarrow> loadingMode (addProvider pre fmt api s) = Async)"
  by (simp add: run_mode run_snoc step_providers step_Async)
     (simp add: constructor_def addProvider_def Let_def)

theorem loading_mode_async_iff_provider_registered_witness:
  "providers constructor = [] \<and>
   loadingMode (addProvider ''./resources/locale-'' None None constructor) = Async \<and>
   loadingMode (run [AddProvider ''./resources/locale-'' None None]) = Async \<and>
   loadingMode (run ([AddProvider ''./resources/locale-'' None None] @
                     [UpdateTranslation env_en (Some ''en'')])) = Async \<and>
   mode_matches_providers (run [AddProvider ''./resources/locale-'' None None])"
  using loading_mode_async_iff_provider_registered
    [of "[AddProvider ''./resources/locale-'' None None]" "UpdateTranslation env_en (Some ''en'')"
        "''./resources/locale-''" None None constructor]
  by (simp add: run_def constructor_def addProvider_def)

subsection \<open>Asynchronous loading\<close>

text \<open>
  Claim C1, as the code has it. A language-switch request for \<open>X\<close> on a service in
  asynchronous mode with \<open>N \<ge> 1\<close> providers starts a load. After the answers \<open>rs\<close> to
  at most \<open>N\<close> of its requests, the service is ready exactly when \<open>N\<close> of them succeeded
  and loading otherwise; the notification for \<open>X\<close> has been emitted once in the first
  case and not at all in the second; the counter is \<open>N\<close> minus the number of successes;
  every failure is on the error log. A failed request changes neither the translation
  data nor the counter.
\<close>

theorem async_load_ready_once_after_all_succeed:
  assumes "loadingMode s = Async" and "providers s \<noteq> []"
    and "X \<noteq> []" and "X \<noteq> languageCode s"
    and "length rs \<le> length (providers s)"
  shows
    "serviceState (respond_all X rs (updateTranslation env (Some X) s)) =
       (if successes rs = length (providers s) then isReady else isLoading) \<and>
     translationChanged (respond_all X rs (updateTranslation env (Some X) s)) =
       translationChanged s @ (if successes rs = length (providers s) then [X] else []) \<and>
     counter (respond_all X rs (updateTranslation env (Some X) s)) =
       Some (int (length (providers s)) - int (successes rs)) \<and>
     console_error (respond_all X rs (updateTranslation env (Some X) s)) =
       console_error s @ failures rs \<and>
     translationData (respond X (Failure err) s') = translationData s' \<and>
     counter (respond X (Failure err) s') = counter s'"
proof -
  have u: "updateTranslation env (Some X) s = getTranslation X s"
    using assms(1,3,4) by (simp add: updateTranslation_def)
  have "successes rs \<le> length (providers s)"
    using successes_le [of rs] assms(5) by simp
  then consider "successes rs < length (providers s)" | "successes rs = length (providers s)"
    by linarith
  then show ?thesis
  proof cases
    case 1
    with load_progress [OF assms(5), of X] show ?thesis
      unfolding u by (simp add: on_error_def)
  next
    case 2
    with load_progress [OF assms(5), of X] assms(2) show ?thesis
      unfolding u by (simp add: on_error_def)
  qed
qed

theorem async_load_ready_once_after_all_succeed_witness:
  "loadingMode svc_two_providers = Async \<and> providers svc_two_providers \<noteq> [] \<and>
   ''it'' \<noteq> languageCode svc_two_providers \<and>
   serviceState (respond_all ''it'' [Success [(''title'', JStr ''Ciao'')]]
                   (updateTranslation env_en (Some ''it'') svc_two_providers)) = isLoading \<and>
   translationChanged (respond_all ''it'' [Success [(''title'', JStr ''Ciao'')]]
                   (updateTranslation env_en (Some ''it'') svc_two_providers)) = [] \<and>
   serviceState (respond_all ''it'' [Success [(''title'', JStr ''Ciao'')], Success []]
                   (updateTranslation env_en (Some ''it'') svc_two_providers)) = isReady \<and>
   translationChanged (respond_all ''it'' [Success [(''title'', JStr ''Ciao'')], Success []]
                   (updateTranslation env_en (Some ''it'') svc_two_providers)) = [''it'']"
proof -
  have h: "loadingMode svc_two_providers = Async" "providers svc_two_providers \<noteq> []"
    "''it'' \<noteq> []" "''it'' \<noteq> languageCode svc_two_providers"
    by (simp_all add: svc_two_providers_def svc_one_provider_def translationProvider_def
          addProvider_def constructor_def)
  have n: "length (providers svc_two_providers) = 2" "translationChanged svc_two_providers = []"
    by (simp_all add: svc_two_providers_def svc_one_provider_def translationProvider_def
          addProvider_def constructor_def)
  have l1: "length [Success [(''title'', JStr ''Ciao'')]] \<le> length (providers svc_two_providers)"
    and l2: "length [Success [(''title'', JStr ''Ciao'')], Success []] \<le> length (providers svc_two_providers)"
    by (simp_all add: n)
  show ?thesis
    using async_load_ready_once_after_all_succeed [OF h l1, of env_en] async_load_ready_once_after_all_succeed [OF h l2, of env_en] h
    by (simp add: n successes_def)
qed

text \<open>
  Claim C1, as stated, fails: with one provider whose request fails, every provider has
  reported, yet the service is still loading, the counter is still 1 and nothing was
  emitted.
\<close>

theorem failed_provider_blocks_readiness:
  "loadingMode svc_one_provider = Async \<and> length (providers svc_one_provider) = 1 \<and>
   serviceState failed_load = isLoading \<and> translationChanged failed_load = [] \<and>
   counter failed_load = Some 1 \<and> console_error failed_load = [''404'']"
  by code_simp

subsection \<open>The translation table\<close>




subsection \<open>Collation not supported\<close>

text \<open>
  Claim C9. When the capability check fails for the current language, \<open>compare\<close> returns
  0, \<open>sort\<close> and \<open>search\<close> return the list they were given, unchanged, and none of them
  throws.
\<close>

theorem unsupported_collation_is_neutral:
  "\<not> IntlSupport_Collator env (getCurrentLanguage env) \<Longrightarrow>
   compare d env s key1 key2 extension options = Inr 0 \<and>
   sort_list d env s list keyName order extension options = Inr list \<and>
   search d env s str list keyNames options = Returns (list, list)"
  by (simp add: compare_def sort_list_def search_def split: option.splits)

theorem unsupported_collation_is_neutral_witness:
  "\<not> IntlSupport_Collator env_unsupported (getCurrentLanguage env_unsupported) \<and>
   compare 1 env_unsupported constructor ''a'' ''b'' None None = Inr 0 \<and>
   sort_list 1 env_unsupported constructor (Some staff) (Some ''position'') None None None = Inr (Some staff) \<and>
   search 1 env_unsupported constructor ''Acc'' (Some staff) (Some [''position'']) None = Returns (Some staff, Some staff)"
  using unsupported_collation_is_neutral [of env_unsupported 1 constructor "''a''" "''b''" None None "Some staff" "Some ''position''" None "''Acc''" "Some [''position'']"]
  by (simp add: env_unsupported_def)

subsection \<open>The shadow columns after sort and search\<close>

text \<open>
  Claim C2 at a concrete list: after \<open>sort\<close> by \<open>position\<close>, and after \<open>search\<close> for
  \<open>"Acc"\<close> in \<open>position\<close>, every record of the returned list and of the input list still
  has its \<open>positionTranslated\<close> field. The removal looks the column name up among the
  records of the list, where it never is: \<open>indexOf\<close> is -1 on every list, and the
  removal loop of \<open>search\<close> returns the list it was given.
\<close>

theorem shadow_column_survives_sort_and_search:
  "indexOf items column = - 1 \<and>
   remove_columns matches columns = matches \<and>
   sort_list 1 env_en constructor (Some staff) (Some ''position'') None None None =
     Inr (Some [[(''position'', JStr ''Accountant''), (''positionTranslated'', JStr ''Accountant'')],
                [(''position'', JStr ''System Architect''), (''positionTranslated'', JStr ''System Architect'')]]) \<and>
   search 1 env_en constructor ''Acc'' (Some staff) (Some [''position'']) None =
     Returns (Some [[(''position'', JStr ''System Architect''), (''positionTranslated'', JStr ''System Architect'')],
                    [(''position'', JStr ''Accountant''), (''positionTranslated'', JStr ''Accountant'')]],
              Some [[(''position'', JStr ''Accountant''), (''positionTranslated'', JStr ''Accountant'')]])"
proof (intro conjI)
  show "indexOf items column = - 1"
    by (rule indexOf_never)
  show "remove_columns matches columns = matches"
    by (rule remove_columns_nothing)
qed code_simp+

subsection \<open>The matching algorithm of search\<close>

text \<open>
  Claim C6. For all strings \<open>v\<close> and \<open>s\<close>, \<open>match\<close> returns false when \<open>s\<close> is longer
  than \<open>v\<close>; when the lengths are equal it returns true iff the two strings collate
  equal; otherwise it returns true iff some substring of \<open>v\<close> of the length of \<open>s\<close>,
  starting at an index from 0 to the difference of the lengths, collates equal to \<open>s\<close>,
  which is what the scan from the left finds. Hence a query longer than every candidate
  value of every record matches nothing.
\<close>

theorem match_is_substring_collation:
  "match (JStr v) s collator =
     Returns (if length v < length s then False
              else if length s = length v then collator v s = 0
              else (\<exists>i\<le>length v - length s. collator (substr v i (length s)) s = 0)) \<and>
   ((\<forall>item\<in>set items. \<forall>column\<in>set columns.
        \<exists>vs. get_prop item column = JStr vs \<and> length vs < length s) \<longrightarrow>
    filter_found collator s columns items = Returns [])"
  by (simp add: match_string filter_found_longer)

theorem match_is_substring_collation_witness:
  "get_prop (hd accountant) ''positionTranslated'' = JStr ''Accountant'' \<and>
   length ''Accountant'' < length ''Chief Accountant'' \<and>
   filter_found (Intl_Collator env_en ''en'' None) ''Chief Accountant'' [''positionTranslated''] accountant = Returns [] \<and>
   match (JStr ''Accountant'') ''Chief Accountant'' (Intl_Collator env_en ''en'' None) = Returns False \<and>
   match (JStr ''Accountant'') ''Acc'' (Intl_Collator env_en ''en'' None) = Returns True"
proof -
  have h: "\<forall>item\<in>set accountant. \<forall>column\<in>set [''positionTranslated''].
        \<exists>vs. get_prop item column = JStr vs \<and> length vs < length ''Chief Accountant''"
    by (simp add: accountant_def get_prop_def)
  have e: "\<exists>i\<le>length ''Accountant'' - length ''Acc''.
             Intl_Collator env_en ''en'' None (substr ''Accountant'' i (length ''Acc'')) ''Acc'' = 0"
    by (rule exI [of _ 0]) (simp add: env_en_def substr_def)
  have a: "get_prop (hd accountant) ''positionTranslated'' = JStr ''Accountant''"
    by (simp add: accountant_def get_prop_def)
  from h e a
    match_is_substring_collation [of "''Accountant''" "''Chief Accountant''" "Intl_Collator env_en ''en'' None"
           accountant "[''positionTranslated'']"]
    match_is_substring_collation [of "''Accountant''" "''Acc''" "Intl_Collator env_en ''en'' None" "[]" "[]"]
  show ?thesis
    by simp
qed

subsection \<open>Missing keys\<close>

text \<open>
  Claim C3 at concrete inputs. With an entry for \<open>en\<close> that lacks the key and no
  missing-key configuration, \<open>translate("home.subtitle", undefined, "en")\<close> returns
  \<open>"subtitle"\<close>, the last segment, and not the key it was given; for a language without
  entry the same call returns the whole key. With a missing key configured that misses
  itself, the call ends in a RangeError at every depth of the call stack.
\<close>

theorem missing_composed_key_returns_last_segment:
  "translate (Suc d) svc_title (JStr ''home.subtitle'') None (Some ''en'') = Inr (JStr ''subtitle'') \<and>
   translate (Suc d) svc_title (JStr ''home.subtitle'') None (Some ''it'') = Inr (JStr ''home.subtitle'') \<and>
   translate d svc_fallback (JStr ''home.subtitle'') None (Some ''en'') = Inl RangeError"
  by (simp add: fallback_loops lookup_title)

subsection \<open>Composed keys\<close>




subsection \<open>Placeholders\<close>




end
